theory Spec2Isabelle
  imports Complex_Main "HOL-Library.Multiset"
begin

section \<open>Data model\<close>

text \<open>
  The program (\<^verbatim>\<open>app.py\<close>) holds the IRS table in a pandas DataFrame and reads its
  columns by name. A row of the loaded table is modelled as a record: the two string
  columns, the two integer key columns, and every other (numeric) column through
  \<open>col\<close>, a function from the column's name to the cell's value, so that
  \<^verbatim>\<open>df['total_agi']\<close> at a row \<open>r\<close> reads \<open>col r ''total_agi''\<close> and an assignment
  \<^verbatim>\<open>df['bottom_50'] = ...\<close> is a function update.

  Numeric cells are exact real numbers: every numeric cell of the loaded table is
  taken to hold a finite number, and rounding is not modelled. A quotient of two
  columns is a \<open>fval\<close>: pandas divides floats without raising, so a zero denominator
  gives an infinity or NaN instead of an exception (zero carries no sign here).
\<close>

record row =
  state :: string
  year :: int
  agi_stub :: int
  agi_stub_cat :: string
  col :: "string \<Rightarrow> real"

type_synonym table = "row list"

datatype fval = Fin real | PosInf | NegInf | NaN

definition fdiv :: "real \<Rightarrow> real \<Rightarrow> fval" where
  "fdiv a b =
     (if b = 0 then (if a = 0 then NaN else if 0 < a then PosInf else NegInf)
      else Fin (a / b))"

text \<open>Comparison of quotients as IEEE floats compare: NaN is below and above nothing.\<close>

fun fle :: "fval \<Rightarrow> fval \<Rightarrow> bool" where
  "fle NaN _ = False"
| "fle _ NaN = False"
| "fle NegInf _ = True"
| "fle _ PosInf = True"
| "fle (Fin a) (Fin b) = (a \<le> b)"
| "fle _ _ = False"

datatype exn = FileNotFoundError | ParserError | EmptyDataError | IndexError

section \<open>Percentile table (Figures 3, 6 and 7)\<close>

text \<open>
  Lines 193 to 201: the aggregate rows of Illinois, with the seven \<open>bottom_50\<close> columns
  added. \<open>add_bottom_50\<close> is the seven column assignments, in the order of the source.
\<close>

definition add_bottom_50 :: "row \<Rightarrow> row" where
  "add_bottom_50 r =
     (let r = r\<lparr>col := (col r)(''bottom_50'' := col r ''total_agi'' - col r ''sum_agi_50'')\<rparr>;
          r = r\<lparr>col := (col r)(''bottom_50_sal'' := col r ''total_sal_amt'' - col r ''sum_sal_50'')\<rparr>;
          r = r\<lparr>col := (col r)(''bottom_50_int'' := col r ''total_int_amt'' - col r ''sum_int_50'')\<rparr>;
          r = r\<lparr>col := (col r)(''bottom_50_div'' := col r ''total_div_amt'' - col r ''sum_div_50'')\<rparr>;
          r = r\<lparr>col := (col r)(''bottom_50_businc'' :=
                  col r ''total_businc_amt'' - col r ''sum_businc_50'')\<rparr>;
          r = r\<lparr>col := (col r)(''bottom_50_cpgain'' :=
                  col r ''total_cpgain_amt'' - col r ''sum_cpgain_50'')\<rparr>;
          r = r\<lparr>col := (col r)(''bottom_50_scorp'' :=
                  col r ''total_scorp_amt'' - col r ''sum_scorp_50'')\<rparr>
      in r)"

definition pctile_dist :: "table \<Rightarrow> table" where
  "pctile_dist df =
     (let pctile_dist = filter (\<lambda>r. agi_stub r = 0) df;
          pctile_dist = filter (\<lambda>r. state r = ''IL'') pctile_dist
      in map add_bottom_50 pctile_dist)"

text \<open>
  Lines 203 to 210: the four ratio columns, one output row per aggregate row. The ratio
  columns are kept in a record of their own since they may be non-finite.
\<close>

record pct_row =
  p_year :: int
  top1 :: fval
  top5 :: fval
  top10 :: fval
  bottom50 :: fval

definition pct_ratios :: "row \<Rightarrow> pct_row" where
  "pct_ratios r =
     \<lparr>p_year = year r,
      top1 = fdiv (col r ''sum_agi_01'') (col r ''total_agi''),
      top5 = fdiv (col r ''sum_agi_05'') (col r ''total_agi''),
      top10 = fdiv (col r ''sum_agi_10'') (col r ''total_agi''),
      bottom50 = fdiv (col r ''bottom_50'') (col r ''total_agi'')\<rparr>"

definition fig3 :: "table \<Rightarrow> pct_row list" where
  "fig3 df = map pct_ratios (pctile_dist df)"

section \<open>Exceptions and pandas helpers\<close>

text \<open>
  An expression that may raise is a value of \<open>exn + 'a\<close>; \<open>ebind\<close> sequences two of
  them and \<open>emap\<close> evaluates a list of them from left to right, as Python evaluates the
  elements of a list display, stopping at the first exception.
\<close>

definition ebind :: "exn + 'a \<Rightarrow> ('a \<Rightarrow> exn + 'b) \<Rightarrow> exn + 'b" where
  "ebind m f = (case m of Inl e \<Rightarrow> Inl e | Inr x \<Rightarrow> f x)"

fun emap :: "('a \<Rightarrow> exn + 'b) \<Rightarrow> 'a list \<Rightarrow> exn + 'b list" where
  "emap f [] = Inr []"
| "emap f (x # xs) = ebind (f x) (\<lambda>y. ebind (emap f xs) (\<lambda>ys. Inr (y # ys)))"

text \<open>\<^verbatim>\<open>Series.unique()\<close>: the distinct values in order of first appearance.\<close>

fun unique :: "'a list \<Rightarrow> 'a list" where
  "unique [] = []"
| "unique (x # xs) = x # unique (filter (\<lambda>y. y \<noteq> x) xs)"

text \<open>\<^verbatim>\<open>a[0]\<close> on an array and \<^verbatim>\<open>s.iloc[0]\<close> on a Series: IndexError when empty.\<close>

definition iloc0 :: "'a list \<Rightarrow> exn + 'a" where
  "iloc0 xs = (case xs of [] \<Rightarrow> Inl IndexError | x # _ \<Rightarrow> Inr x)"

text \<open>\<^verbatim>\<open>df[c].sum()\<close>: the sum of a column, 0 for an empty table.\<close>

definition col_sum :: "string \<Rightarrow> table \<Rightarrow> real" where
  "col_sum c df = sum_list (map (\<lambda>r. col r c) df)"

text \<open>
  \<^verbatim>\<open>df.groupby('year')\<close>: one group per distinct year, the groups in ascending order of
  the year, the rows of a group in their order in the table.
\<close>

definition groupby_year :: "table \<Rightarrow> (int \<times> table) list" where
  "groupby_year df =
     map (\<lambda>y. (y, filter (\<lambda>r. year r = y) df)) (sort (remdups (map year df)))"

text \<open>
  \<^verbatim>\<open>left.merge(right, on=key)\<close>, an inner join: for each left row in order, one output
  row for each right row with the same key; a left row with no partner is dropped.
\<close>

definition merge_on :: "('k \<times> 'a) list \<Rightarrow> ('k \<times> 'b) list \<Rightarrow> ('k \<times> 'a \<times> 'b) list" where
  "merge_on left right =
     concat (map (\<lambda>(k, a). map (\<lambda>(k', b). (k, a, b)) (filter (\<lambda>(k', b). k' = k) right)) left)"

section \<open>Summary of findings (lines 46 to 61)\<close>

record summary =
  top_01 :: real
  top_05 :: real
  top_10 :: real
  top_50 :: real
  diff_m :: real
  y2022_b :: real
  change :: fval

definition summary_of :: "table \<Rightarrow> exn + summary" where
  "summary_of df =
     (let dfx = filter (\<lambda>r. year r = 2022) df;
          dfx = filter (\<lambda>r. state r = ''IL'') dfx
      in ebind (iloc0 (unique (map (\<lambda>r. col r ''agi_01'') dfx))) (\<lambda>top_01.
         ebind (iloc0 (unique (map (\<lambda>r. col r ''agi_05'') dfx))) (\<lambda>top_05.
         ebind (iloc0 (unique (map (\<lambda>r. col r ''agi_10'') dfx))) (\<lambda>top_10.
         ebind (iloc0 (unique (map (\<lambda>r. col r ''agi_50'') dfx))) (\<lambda>top_50.
           (let y2022 = col_sum ''agi'' (filter (\<lambda>r. year r = 2022 \<and> state r = ''IL'') df);
                y2012 = col_sum ''agi'' (filter (\<lambda>r. year r = 2012 \<and> state r = ''IL'') df);
                diff = y2022 - y2012
            in Inr \<lparr>top_01 = top_01, top_05 = top_05, top_10 = top_10, top_50 = top_50,
                    diff_m = diff / 1000000, y2022_b = y2022 / 1000000000,
                    change = fdiv diff y2012\<rparr>))))))"

section \<open>Figure 1: shares by income group (lines 95 to 109)\<close>

record share_row =
  s_cat :: string
  s_stub :: int
  legend :: string
  percentage :: fval

text \<open>
  The two share columns are functions of the row: the quotient of the row's cell by the
  sum of the column over the filtered slice. \<^verbatim>\<open>sort_values('agi_stub')\<close> orders the rows
  by bracket (rows of the same bracket keep their order here; pandas leaves it open);
  \<^verbatim>\<open>pd.melt\<close> then lists every row once for \<open>Tax returns\<close> and once for \<open>Income\<close>.
\<close>

definition fig1 :: "table \<Rightarrow> share_row list" where
  "fig1 df =
     (let amt_dist = filter (\<lambda>r. agi_stub r \<noteq> 0) df;
          amt_dist = filter (\<lambda>r. year r = 2022 \<and> state r = ''IL'') amt_dist;
          returns_sum = col_sum ''returns'' amt_dist;
          tax_returns = (\<lambda>r. fdiv (col r ''returns'') returns_sum);
          inc_sum = col_sum ''inc'' amt_dist;
          income = (\<lambda>r. fdiv (col r ''inc'') inc_sum);
          amt_dist = sort_key agi_stub amt_dist
      in map (\<lambda>r. \<lparr>s_cat = agi_stub_cat r, s_stub = agi_stub r,
                    legend = ''Tax returns'', percentage = tax_returns r\<rparr>) amt_dist
         @ map (\<lambda>r. \<lparr>s_cat = agi_stub_cat r, s_stub = agi_stub r,
                      legend = ''Income'', percentage = income r\<rparr>) amt_dist)"

section \<open>Figure 2: the top bracket over time (lines 142 to 159)\<close>

record ts_row =
  t_year :: int
  t_returns :: real
  t_inc :: real
  returns_10 :: real
  inc_10 :: real
  t_tax_returns :: fval
  t_income :: fval

definition fig2 :: "table \<Rightarrow> ts_row list" where
  "fig2 df =
     (let amt_dist = filter (\<lambda>r. agi_stub r \<noteq> 0) df;
          amt_dist = filter (\<lambda>r. state r = ''IL'') amt_dist;
          amt_dist_mil = map (\<lambda>(y, g). (y, (col_sum ''returns'' g, col_sum ''inc'' g)))
                           (groupby_year (filter (\<lambda>r. agi_stub r = 10) amt_dist));
          amt_dist = map (\<lambda>(y, g). (y, (col_sum ''returns'' g, col_sum ''inc'' g)))
                       (groupby_year amt_dist);
          amt_dist = merge_on amt_dist amt_dist_mil
      in map (\<lambda>(y, (ret, inc), (ret10, inc10)).
                \<lparr>t_year = y, t_returns = ret, t_inc = inc, returns_10 = ret10, inc_10 = inc10,
                 t_tax_returns = fdiv ret10 ret, t_income = fdiv inc10 inc\<rparr>) amt_dist)"

section \<open>Figures 4 and 5: sources of income by income group (lines 246 to 301)\<close>

record src_row =
  g_cat :: string
  g_stub :: int
  g_inc :: real
  income_source :: string
  amount :: real
  source_pct :: fval
  source_total :: real
  share_pct :: fval

text \<open>The six source columns with the names line 253 gives them, in the order of the melt.\<close>

definition group_sources :: "(string \<times> string) list" where
  "group_sources =
     [(''wages'', ''Wages and Salaries''), (''interest'', ''Interest''),
      (''dividends'', ''Dividends''), (''business'', ''Business''),
      (''capital_gains'', ''Capital Gains''), (''s_corp'', ''S-Corp'')]"

text \<open>
  Lines 246 to 274, the long-form table: one row per source and bracket, with
  \<open>source_pct\<close> the column \<open>Source of Income (%)\<close>, \<open>source_total\<close> the per-source sum
  that the left merge attaches (the column \<open>Share of Income\<close>) and \<open>share_pct\<close> the
  column \<open>Share of Income (%)\<close>. The totals come from the same table, so each row finds
  exactly the total of its own source.
\<close>

definition source_income_long :: "table \<Rightarrow> src_row list" where
  "source_income_long df =
     (let source_income = filter (\<lambda>r. year r = 2022 \<and> state r = ''IL'') df;
          source_income = filter (\<lambda>r. agi_stub r \<noteq> 0) source_income;
          melted = concat (map (\<lambda>(c, name).
                     map (\<lambda>r. (agi_stub_cat r, agi_stub r, col r ''inc'', name, col r c))
                       source_income) group_sources);
          share = (\<lambda>name. sum_list (map (\<lambda>(cat, stub, inc, src, amt). amt)
                     (filter (\<lambda>(cat, stub, inc, src, amt). src = name) melted)))
      in map (\<lambda>(cat, stub, inc, src, amt).
                \<lparr>g_cat = cat, g_stub = stub, g_inc = inc, income_source = src, amount = amt,
                 source_pct = fdiv amt inc, source_total = share src,
                 share_pct = fdiv amt (share src)\<rparr>) melted)"

text \<open>
  Lines 278 to 301: \<open>selected_source\<close> is what the select box returns. The filtered table
  is assigned back to \<open>source_income\<close>, and both charts are drawn from that variable.
\<close>

definition fig4_fig5 :: "table \<Rightarrow> string \<Rightarrow> src_row list \<times> src_row list" where
  "fig4_fig5 df selected_source =
     (let source_income = source_income_long df;
          source_income = filter (\<lambda>l. income_source l = selected_source) source_income;
          fig4 = source_income;
          fig5 = source_income
      in (fig4, fig5))"

section \<open>Figures 6 and 7: sources of income by percentile (lines 323 to 434)\<close>

record pshare_row =
  percentile :: string
  ps_source :: string
  share :: fval

definition inc_share_df :: "table \<Rightarrow> table" where
  "inc_share_df df = filter (\<lambda>r. year r = 2022) (pctile_dist df)"

text \<open>
  A list display of quotients \<^verbatim>\<open>(df[n] / df[d]).iloc[0]\<close>, one for each pair of column
  names: each divides the two columns and takes the first row's quotient.
\<close>

definition ratio_list :: "table \<Rightarrow> (string \<times> string) list \<Rightarrow> exn + fval list" where
  "ratio_list df pairs = emap (\<lambda>(n, d). iloc0 (map (\<lambda>r. fdiv (col r n) (col r d)) df)) pairs"

text \<open>
  The column names of the six lists of each figure differ only in the source's tag
  (\<open>sal\<close>, \<open>int\<close>, ...): numerator and denominator of the four quotients, for the tag.
\<close>

definition within_pairs :: "string \<Rightarrow> (string \<times> string) list" where
  "within_pairs s =
     [(''bottom_50_'' @ s, ''bottom_50''),
      (''sum_'' @ s @ ''_01'', ''sum_agi_01''),
      (''sum_'' @ s @ ''_05'', ''sum_agi_05''),
      (''sum_'' @ s @ ''_10'', ''sum_agi_10'')]"

definition of_total_pairs :: "string \<Rightarrow> (string \<times> string) list" where
  "of_total_pairs s =
     [(''bottom_50_'' @ s, ''total_'' @ s @ ''_amt''),
      (''sum_'' @ s @ ''_01'', ''total_'' @ s @ ''_amt''),
      (''sum_'' @ s @ ''_05'', ''total_'' @ s @ ''_amt''),
      (''sum_'' @ s @ ''_10'', ''total_'' @ s @ ''_amt'')]"

definition pct_sources :: "(string \<times> string) list" where
  "pct_sources =
     [(''sal'', ''Wages and Salaries''), (''int'', ''Interest''), (''div'', ''Dividends''),
      (''businc'', ''Business''), (''cpgain'', ''Capital Gains''), (''scorp'', ''S-Corp'')]"

definition cats :: "string list" where
  "cats = [''Bottom 50%'', ''Top 1%'', ''Top 5%'', ''Top 10%'']"

text \<open>
  The six lists are evaluated in the order of \<open>pct_sources\<close>, put side by side under
  \<open>cats\<close> and melted: the rows of the first source, then those of the second, and so on.
\<close>

definition percentile_chart ::
  "table \<Rightarrow> (string \<Rightarrow> (string \<times> string) list) \<Rightarrow> exn + pshare_row list" where
  "percentile_chart df pairs =
     ebind (emap (\<lambda>(s, name). ratio_list df (pairs s)) pct_sources) (\<lambda>lists.
       Inr (concat (map2 (\<lambda>(s, name) vals.
              map2 (\<lambda>c v. \<lparr>percentile = c, ps_source = name, share = v\<rparr>) cats vals)
              pct_sources lists)))"

definition fig6 :: "table \<Rightarrow> exn + pshare_row list" where
  "fig6 df = percentile_chart (inc_share_df df) within_pairs"

definition fig7 :: "table \<Rightarrow> exn + pshare_row list" where
  "fig7 df = percentile_chart (inc_share_df df) of_total_pairs"

section \<open>Figure 8: shares of the sources over time (lines 450 to 463)\<close>

record src_ts_row =
  s_year :: int
  shares :: "(string \<times> fval) list"

definition fig8 :: "table \<Rightarrow> src_ts_row list" where
  "fig8 df =
     (let income_sources_dist = filter (\<lambda>r. state r = ''IL'') df;
          income_sources_dist = filter (\<lambda>r. agi_stub r \<noteq> 0) income_sources_dist
      in map (\<lambda>(y, g).
           \<lparr>s_year = y,
            shares = map (\<lambda>(c, name). (name, fdiv (col_sum c g) (col_sum ''inc'' g)))
              [(''wages'', ''Wages''), (''interest'', ''Interest''),
               (''dividends'', ''Dividends''), (''business'', ''Business''),
               (''capital_gains'', ''Capital Gains''), (''s_corp'', ''S-Corp'')]\<rparr>)
           (groupby_year income_sources_dist))"

section \<open>The page\<close>

text \<open>
  What the page shows, in order: the error box of the loader, the summary paragraph
  with its computed figures, and the table handed to each chart. Headings and fixed
  text are left out.
\<close>

datatype ui =
    StError
  | Markdown summary
  | Chart1 "share_row list"
  | Chart2 "ts_row list"
  | Chart3 "pct_row list"
  | Chart4 "src_row list"
  | Chart5 "src_row list"
  | Chart6 "pshare_row list"
  | Chart7 "pshare_row list"
  | Chart8 "src_ts_row list"

fun is_chart :: "ui \<Rightarrow> bool" where
  "is_chart StError = False"
| "is_chart (Markdown _) = False"
| "is_chart _ = True"

text \<open>
  Lines 29 to 487 of \<open>main\<close>, on the loaded table: the elements shown, and the exception
  that ended the run, if one did. An exception leaves what was shown before it.
\<close>

definition main_body :: "table \<Rightarrow> string \<Rightarrow> ui list \<times> exn option" where
  "main_body df selected_source =
     (case summary_of df of
        Inl e \<Rightarrow> ([], Some e)
      | Inr s \<Rightarrow>
          (let (f4, f5) = fig4_fig5 df selected_source;
               shown = [Markdown s, Chart1 (fig1 df), Chart2 (fig2 df), Chart3 (fig3 df),
                        Chart4 f4, Chart5 f5]
           in case fig6 df of
                Inl e \<Rightarrow> (shown, Some e)
              | Inr f6 \<Rightarrow>
                  (case fig7 df of
                     Inl e \<Rightarrow> (shown @ [Chart6 f6], Some e)
                   | Inr f7 \<Rightarrow> (shown @ [Chart6 f6, Chart7 f7, Chart8 (fig8 df)], None))))"

section \<open>Loader (lines 10 to 20)\<close>

text \<open>
  What \<^verbatim>\<open>pd.read_csv\<close> returns is a frame of named columns whose cells are numbers or
  strings. \<^verbatim>\<open>pd.to_numeric(column, errors='ignore')\<close> converts the column when every cell
  of it converts and returns its input otherwise; which strings denote numbers is the
  library's matter and is the parameter \<open>parse\<close>. \<^verbatim>\<open>df.apply\<close> calls it on every column.
\<close>

datatype cell = Num real | Str string

type_synonym frame = "(string \<times> cell list) list"

fun coerce :: "(string \<Rightarrow> real option) \<Rightarrow> cell \<Rightarrow> real option" where
  "coerce parse (Num x) = Some x"
| "coerce parse (Str s) = parse s"

definition to_numeric_ignore :: "(string \<Rightarrow> real option) \<Rightarrow> cell list \<Rightarrow> cell list" where
  "to_numeric_ignore parse xs =
     (case those (map (coerce parse) xs) of None \<Rightarrow> xs | Some ys \<Rightarrow> map Num ys)"

definition apply_to_numeric :: "(string \<Rightarrow> real option) \<Rightarrow> frame \<Rightarrow> frame" where
  "apply_to_numeric parse df = map (\<lambda>(name, xs). (name, to_numeric_ignore parse xs)) df"

text \<open>
  \<open>load_data\<close> takes the outcome of reading the file: the frame, or the exception
  \<^verbatim>\<open>read_csv\<close> raised. Only \<open>FileNotFoundError\<close> is caught: an error box is shown and
  \<open>None\<close> returned. Any other exception leaves the function.
\<close>

definition load_data ::
  "(string \<Rightarrow> real option) \<Rightarrow> exn + frame \<Rightarrow> ui list \<times> (exn + frame option)" where
  "load_data parse read_csv =
     (case read_csv of
        Inr df \<Rightarrow> ([], Inr (Some (apply_to_numeric parse df)))
      | Inl FileNotFoundError \<Rightarrow> ([StError], Inr None)
      | Inl e \<Rightarrow> ([], Inl e))"

text \<open>
  \<open>main\<close>: load, return at once when the loader gave \<open>None\<close>, otherwise run the page on
  the loaded frame. The derivations read the frame as typed rows; \<open>typed\<close> is that
  reading, a parameter here.
\<close>

definition main ::
  "(string \<Rightarrow> real option) \<Rightarrow> (frame \<Rightarrow> table) \<Rightarrow> exn + frame \<Rightarrow> string
     \<Rightarrow> ui list \<times> exn option" where
  "main parse typed read_csv selected_source =
     (case load_data parse read_csv of
        (shown, Inl e) \<Rightarrow> (shown, Some e)
      | (shown, Inr None) \<Rightarrow> (shown, None)
      | (shown, Inr (Some df)) \<Rightarrow>
          (let (shown', e) = main_body (typed df) selected_source in (shown @ shown', e)))"




section \<open>Notions used to state the properties\<close>







subsection \<open>Example tables\<close>

definition blank :: "string \<Rightarrow> int \<Rightarrow> int \<Rightarrow> row" where
  "blank s y b = \<lparr>state = s, year = y, agi_stub = b, agi_stub_cat = ''All'', col = (\<lambda>_. 0)\<rparr>"

text \<open>
  The aggregate row of the specification's scenario: total AGI 10000, top 10% 4000,
  top 1% 1500; here with top 5% 2500 and top 50% 9000.
\<close>

definition scenario_row :: row where
  "scenario_row = (blank ''IL'' 2022 0)\<lparr>col := (\<lambda>_. 0)
     (''total_agi'' := 10000, ''sum_agi_01'' := 1500, ''sum_agi_05'' := 2500,
      ''sum_agi_10'' := 4000, ''sum_agi_50'' := 9000)\<rparr>"


text \<open>The two brackets of the specification's Figure 1 scenario, and a bracket of zeros.\<close>

definition bracket_a :: row where
  "bracket_a = (blank ''IL'' 2022 1)\<lparr>col := (\<lambda>_. 0)(''returns'' := 100, ''inc'' := 1000)\<rparr>"




text \<open>Illinois with a top bracket in 2022 only.\<close>

definition two_years :: table where
  "two_years =
     [(blank ''IL'' 2021 1)\<lparr>col := (\<lambda>_. 0)(''returns'' := 100, ''inc'' := 1000)\<rparr>,
      bracket_a,
      (blank ''IL'' 2022 10)\<lparr>col := (\<lambda>_. 0)(''returns'' := 10, ''inc'' := 9000)\<rparr>]"


section \<open>Facts about the percentile table\<close>

lemma add_bottom_50_keys:
  "state (add_bottom_50 r) = state r" "year (add_bottom_50 r) = year r"
  "agi_stub (add_bottom_50 r) = agi_stub r" "agi_stub_cat (add_bottom_50 r) = agi_stub_cat r"
  by (simp_all add: add_bottom_50_def Let_def)

lemma add_bottom_50_col:
  "col (add_bottom_50 r) = (col r)
     (''bottom_50'' := col r ''total_agi'' - col r ''sum_agi_50'',
      ''bottom_50_sal'' := col r ''total_sal_amt'' - col r ''sum_sal_50'',
      ''bottom_50_int'' := col r ''total_int_amt'' - col r ''sum_int_50'',
      ''bottom_50_div'' := col r ''total_div_amt'' - col r ''sum_div_50'',
      ''bottom_50_businc'' := col r ''total_businc_amt'' - col r ''sum_businc_50'',
      ''bottom_50_cpgain'' := col r ''total_cpgain_amt'' - col r ''sum_cpgain_50'',
      ''bottom_50_scorp'' := col r ''total_scorp_amt'' - col r ''sum_scorp_50'')"
  by (simp add: add_bottom_50_def Let_def)

section \<open>The bottom 50% by subtraction\<close>

text \<open>
  C1, as stated: the \<open>bottom_50\<close> amount is the total minus the top-10% cumulative
  amount. On the scenario row (total 10000, top 10% 4000, top 50% 9000) the amount is
  1000, where the total minus the top-10% sum is 6000, and Figure 3 shows a bottom-50%
  share of 1/10, where the stated formula gives 6000/10000 = 3/5.
\<close>

theorem bottom_50_top_10_counterexample:
  "pctile_dist [scenario_row] = [add_bottom_50 scenario_row]
   \<and> col (add_bottom_50 scenario_row) ''bottom_50'' = 1000
   \<and> col (add_bottom_50 scenario_row) ''total_agi''
       - col (add_bottom_50 scenario_row) ''sum_agi_10'' = 6000
   \<and> fig3 [scenario_row] =
       [\<lparr>p_year = 2022, top1 = Fin (3 / 20), top5 = Fin (1 / 4), top10 = Fin (2 / 5),
         bottom50 = Fin (1 / 10)\<rparr>]
   \<and> fdiv (col scenario_row ''total_agi'' - col scenario_row ''sum_agi_10'')
        (col scenario_row ''total_agi'') = Fin (3 / 5)"
proof -
  have "pctile_dist [scenario_row] = [add_bottom_50 scenario_row]"
    by (simp add: pctile_dist_def scenario_row_def blank_def Let_def)
  then show ?thesis
    by (simp add: fig3_def pct_ratios_def add_bottom_50_col add_bottom_50_keys fdiv_def)
       (simp add: scenario_row_def blank_def)
qed

text \<open>
  C1, amended: in the percentile table that feeds Figures 3, 6 and 7, the \<open>bottom_50\<close>
  amount of every row equals the total amount minus the top-50% cumulative amount, for
  total AGI and for each of the six income sources; the bottom-50% share of Figure 3 is
  that difference over the total AGI.
\<close>

theorem pctile_bottom_50_from_top_50:
  "(\<forall>p \<in> set (pctile_dist df).
      col p ''bottom_50'' = col p ''total_agi'' - col p ''sum_agi_50''
    \<and> col p ''bottom_50_sal'' = col p ''total_sal_amt'' - col p ''sum_sal_50''
    \<and> col p ''bottom_50_int'' = col p ''total_int_amt'' - col p ''sum_int_50''
    \<and> col p ''bottom_50_div'' = col p ''total_div_amt'' - col p ''sum_div_50''
    \<and> col p ''bottom_50_businc'' = col p ''total_businc_amt'' - col p ''sum_businc_50''
    \<and> col p ''bottom_50_cpgain'' = col p ''total_cpgain_amt'' - col p ''sum_cpgain_50''
    \<and> col p ''bottom_50_scorp'' = col p ''total_scorp_amt'' - col p ''sum_scorp_50'')
   \<and> map bottom50 (fig3 df) =
       map (\<lambda>r. fdiv (col r ''total_agi'' - col r ''sum_agi_50'') (col r ''total_agi''))
         (filter (\<lambda>r. state r = ''IL'') (filter (\<lambda>r. agi_stub r = 0) df))"
proof
  show "\<forall>p \<in> set (pctile_dist df).
      col p ''bottom_50'' = col p ''total_agi'' - col p ''sum_agi_50''
    \<and> col p ''bottom_50_sal'' = col p ''total_sal_amt'' - col p ''sum_sal_50''
    \<and> col p ''bottom_50_int'' = col p ''total_int_amt'' - col p ''sum_int_50''
    \<and> col p ''bottom_50_div'' = col p ''total_div_amt'' - col p ''sum_div_50''
    \<and> col p ''bottom_50_businc'' = col p ''total_businc_amt'' - col p ''sum_businc_50''
    \<and> col p ''bottom_50_cpgain'' = col p ''total_cpgain_amt'' - col p ''sum_cpgain_50''
    \<and> col p ''bottom_50_scorp'' = col p ''total_scorp_amt'' - col p ''sum_scorp_50''"
  proof
    fix p assume "p \<in> set (pctile_dist df)"
    then obtain r where p: "p = add_bottom_50 r"
      by (auto simp: pctile_dist_def Let_def)
    show "col p ''bottom_50'' = col p ''total_agi'' - col p ''sum_agi_50''
    \<and> col p ''bottom_50_sal'' = col p ''total_sal_amt'' - col p ''sum_sal_50''
    \<and> col p ''bottom_50_int'' = col p ''total_int_amt'' - col p ''sum_int_50''
    \<and> col p ''bottom_50_div'' = col p ''total_div_amt'' - col p ''sum_div_50''
    \<and> col p ''bottom_50_businc'' = col p ''total_businc_amt'' - col p ''sum_businc_50''
    \<and> col p ''bottom_50_cpgain'' = col p ''total_cpgain_amt'' - col p ''sum_cpgain_50''
    \<and> col p ''bottom_50_scorp'' = col p ''total_scorp_amt'' - col p ''sum_scorp_50''"
      unfolding p add_bottom_50_col by simp
  qed
  show "map bottom50 (fig3 df) =
       map (\<lambda>r. fdiv (col r ''total_agi'' - col r ''sum_agi_50'') (col r ''total_agi''))
         (filter (\<lambda>r. state r = ''IL'') (filter (\<lambda>r. agi_stub r = 0) df))"
    by (simp add: fig3_def pctile_dist_def Let_def pct_ratios_def add_bottom_50_col comp_def)
qed

theorem pctile_bottom_50_from_top_50_witness:
  "map (\<lambda>p. col p ''bottom_50'') (pctile_dist [scenario_row]) = [1000]
   \<and> map (\<lambda>p. col p ''total_agi'' - col p ''sum_agi_50'') (pctile_dist [scenario_row]) = [1000]
   \<and> map bottom50 (fig3 [scenario_row]) = [Fin (1 / 10)]"
  using pctile_bottom_50_from_top_50 [of "[scenario_row]"]
  by (simp add: pctile_dist_def add_bottom_50_col scenario_row_def blank_def fdiv_def Let_def)

text \<open>
  C2: the field subtracted from the total is the top-50% cumulative field, for total AGI
  (\<open>bottom_50 = total_agi - sum_agi_50\<close>) and for each income source, not the top-10%
  cumulative field: the seven new columns in terms of the row they are computed from,
  and the scenario row, where the difference is 1000 while the total minus the top-10%
  sum is 6000.
\<close>

theorem bottom_50_subtracts_top_50:
  "col (add_bottom_50 r) ''bottom_50'' = col r ''total_agi'' - col r ''sum_agi_50''
   \<and> col (add_bottom_50 r) ''bottom_50_sal'' = col r ''total_sal_amt'' - col r ''sum_sal_50''
   \<and> col (add_bottom_50 r) ''bottom_50_int'' = col r ''total_int_amt'' - col r ''sum_int_50''
   \<and> col (add_bottom_50 r) ''bottom_50_div'' = col r ''total_div_amt'' - col r ''sum_div_50''
   \<and> col (add_bottom_50 r) ''bottom_50_businc''
       = col r ''total_businc_amt'' - col r ''sum_businc_50''
   \<and> col (add_bottom_50 r) ''bottom_50_cpgain''
       = col r ''total_cpgain_amt'' - col r ''sum_cpgain_50''
   \<and> col (add_bottom_50 r) ''bottom_50_scorp''
       = col r ''total_scorp_amt'' - col r ''sum_scorp_50''
   \<and> col (add_bottom_50 scenario_row) ''bottom_50'' = 1000
   \<and> col scenario_row ''total_agi'' - col scenario_row ''sum_agi_10'' = 6000"
  by (simp add: add_bottom_50_def Let_def scenario_row_def blank_def)

section \<open>Nesting of the percentile shares\<close>

text \<open>
  C8: when every aggregate row of Illinois satisfies the nesting invariant (top-1% sum
  \<open>\<le>\<close> top-5% sum \<open>\<le>\<close> top-10% sum \<open>\<le>\<close> total, the total positive), every year's row of
  Figure 3 has Top 1% \<open>\<le>\<close> Top 5% \<open>\<le>\<close> Top 10% \<open>\<le>\<close> 1.
\<close>

theorem percentile_ratios_nested:
  assumes "\<forall>r \<in> set df. agi_stub r = 0 \<and> state r = ''IL'' \<longrightarrow>
             col r ''sum_agi_01'' \<le> col r ''sum_agi_05''
           \<and> col r ''sum_agi_05'' \<le> col r ''sum_agi_10''
           \<and> col r ''sum_agi_10'' \<le> col r ''total_agi''
           \<and> 0 < col r ''total_agi''"
  shows "\<forall>p \<in> set (fig3 df).
           fle (top1 p) (top5 p) \<and> fle (top5 p) (top10 p) \<and> fle (top10 p) (Fin 1)"
proof
  fix p assume "p \<in> set (fig3 df)"
  then obtain r where r: "r \<in> set df" "agi_stub r = 0" "state r = ''IL''"
    and p: "p = pct_ratios (add_bottom_50 r)"
    by (auto simp: fig3_def pctile_dist_def Let_def)
  from assms r have h: "col r ''sum_agi_01'' \<le> col r ''sum_agi_05''"
    "col r ''sum_agi_05'' \<le> col r ''sum_agi_10''"
    "col r ''sum_agi_10'' \<le> col r ''total_agi''" "0 < col r ''total_agi''"
    by blast+
  show "fle (top1 p) (top5 p) \<and> fle (top5 p) (top10 p) \<and> fle (top10 p) (Fin 1)"
    using h by (simp add: p pct_ratios_def add_bottom_50_col fdiv_def divide_right_mono)
qed

theorem percentile_ratios_nested_witness:
  "col scenario_row ''sum_agi_01'' \<le> col scenario_row ''sum_agi_05''
   \<and> col scenario_row ''sum_agi_05'' \<le> col scenario_row ''sum_agi_10''
   \<and> col scenario_row ''sum_agi_10'' \<le> col scenario_row ''total_agi''
   \<and> 0 < col scenario_row ''total_agi''
   \<and> length (fig3 [scenario_row]) = 1
   \<and> list_all (\<lambda>p. fle (top1 p) (top5 p) \<and> fle (top5 p) (top10 p) \<and> fle (top10 p) (Fin 1))
       (fig3 [scenario_row])"
proof -
  have h: "\<forall>r \<in> set [scenario_row]. agi_stub r = 0 \<and> state r = ''IL'' \<longrightarrow>
             col r ''sum_agi_01'' \<le> col r ''sum_agi_05''
           \<and> col r ''sum_agi_05'' \<le> col r ''sum_agi_10''
           \<and> col r ''sum_agi_10'' \<le> col r ''total_agi''
           \<and> 0 < col r ''total_agi''"
    by (simp add: scenario_row_def blank_def)
  have n: "length (fig3 [scenario_row]) = 1"
    by (simp add: fig3_def pctile_dist_def scenario_row_def blank_def Let_def)
  from percentile_ratios_nested [OF h] have "list_all
      (\<lambda>p. fle (top1 p) (top5 p) \<and> fle (top5 p) (top10 p) \<and> fle (top10 p) (Fin 1))
      (fig3 [scenario_row])"
    by (simp add: list_all_iff)
  with n show ?thesis by (simp add: scenario_row_def blank_def)
qed

section \<open>Figure 1: the shares sum to one\<close>










section \<open>Figures 4 and 5: the selection\<close>

text \<open>
  C3, as stated: the selection filters the table for Figure 4 only, and Figure 5 is drawn
  from the unfiltered long-form table with every source. With one bracket row and
  \<open>Interest\<close> selected, the table of Figure 5 has the one row of \<open>Interest\<close>, while the
  long-form table has a row for each of the six sources.
\<close>

theorem fig5_unfiltered_counterexample:
  "map income_source (snd (fig4_fig5 [bracket_a] ''Interest'')) = [''Interest'']
   \<and> map income_source (source_income_long [bracket_a]) =
       [''Wages and Salaries'', ''Interest'', ''Dividends'', ''Business'', ''Capital Gains'',
        ''S-Corp'']"
  by (simp add: fig4_fig5_def source_income_long_def group_sources_def bracket_a_def blank_def
      Let_def)

text \<open>
  C3, amended: the selection filters the long-form table to the selected source, and the
  chart inputs of Figure 4 and of Figure 5 are both that filtered table: every row of
  Figure 5's input is of the selected source.
\<close>

theorem fig4_fig5_same_filtered_table:
  "fst (fig4_fig5 df selected_source) =
     filter (\<lambda>l. income_source l = selected_source) (source_income_long df)
   \<and> snd (fig4_fig5 df selected_source) = fst (fig4_fig5 df selected_source)
   \<and> (\<forall>l \<in> set (snd (fig4_fig5 df selected_source)). income_source l = selected_source)"
  by (simp add: fig4_fig5_def Let_def)

theorem fig4_fig5_same_filtered_table_witness:
  "map income_source (fst (fig4_fig5 [bracket_a] ''Interest'')) = [''Interest'']
   \<and> snd (fig4_fig5 [bracket_a] ''Interest'') = fst (fig4_fig5 [bracket_a] ''Interest'')
   \<and> list_all (\<lambda>l. income_source l = ''Interest'') (snd (fig4_fig5 [bracket_a] ''Interest''))"
  using fig4_fig5_same_filtered_table [of "[bracket_a]" "''Interest''"]
  by (simp add: list_all_iff source_income_long_def group_sources_def bracket_a_def blank_def
      Let_def)

section \<open>Figure 2: the years of the time series\<close>

lemma filter_key_distinct:
  "distinct (map fst R) \<Longrightarrow>
     map (\<lambda>(k', b). k) (filter (\<lambda>(k', b). k' = k) R) = (if k \<in> fst ` set R then [k] else [])"
proof (induction R)
  case Nil
  then show ?case by simp
next
  case (Cons x R)
  then show ?case by (cases x) (auto simp: image_iff)
qed

lemma merge_on_keys:
  assumes "distinct (map fst R)"
  shows "map fst (merge_on L R) = filter (\<lambda>k. k \<in> fst ` set R) (map fst L)"
proof (induction L)
  case Nil
  then show ?case by (simp add: merge_on_def)
next
  case (Cons x L)
  obtain k a where x: "x = (k, a)" by (cases x)
  have "map fst (map (\<lambda>(k', b). (k, a, b)) (filter (\<lambda>(k', b). k' = k) R))
      = map (\<lambda>(k', b). k) (filter (\<lambda>(k', b). k' = k) R)"
    by (simp add: case_prod_unfold comp_def)
  with Cons filter_key_distinct [OF assms, of k] show ?case
    by (simp add: merge_on_def x)
qed

lemma groupby_year_keys: "map fst (groupby_year df) = sort (remdups (map year df))"
  by (simp add: groupby_year_def comp_def)

lemma sorted_distinct_filter_subset:
  fixes xs ys :: "int list"
  assumes "sorted xs" "distinct xs" "sorted ys" "distinct ys" "set ys \<subseteq> set xs"
  shows "filter (\<lambda>k. k \<in> set ys) xs = ys"
proof (rule sorted_distinct_set_unique)
  show "sorted (filter (\<lambda>k. k \<in> set ys) xs)" using assms(1) by (simp add: sorted_wrt_filter)
  show "distinct (filter (\<lambda>k. k \<in> set ys) xs)" using assms(2) by simp
  show "sorted ys" "distinct ys" by fact+
  show "set (filter (\<lambda>k. k \<in> set ys) xs) = set ys" using assms(5) by auto
qed

lemma fig2_years:
  "map t_year (fig2 df) =
     sort (remdups (map year (filter (\<lambda>r. state r = ''IL'' \<and> agi_stub r = 10) df)))"
proof -
  define B where "B = filter (\<lambda>r. state r = ''IL'') (filter (\<lambda>r. agi_stub r \<noteq> 0) df)"
  define M where "M = filter (\<lambda>r. agi_stub r = 10) B"
  define g where "g = (\<lambda>(y :: int, t). (y, (col_sum ''returns'' t, col_sum ''inc'' t)))"
  define R where "R = map g (groupby_year M)"
  define L where "L = map g (groupby_year B)"
  have kR: "map fst R = sort (remdups (map year M))"
    by (simp add: R_def g_def groupby_year_def comp_def)
  have kL: "map fst L = sort (remdups (map year B))"
    by (simp add: L_def g_def groupby_year_def comp_def)
  have sR: "fst ` set R = set (sort (remdups (map year M)))"
    using kR by (metis set_map)
  have "map t_year (fig2 df) = map fst (merge_on L R)"
    by (simp add: fig2_def Let_def B_def M_def g_def R_def L_def comp_def case_prod_unfold)
  also have "\<dots> = filter (\<lambda>k. k \<in> fst ` set R) (map fst L)"
    by (rule merge_on_keys) (simp add: kR)
  also have "\<dots> = filter (\<lambda>k. k \<in> set (sort (remdups (map year M)))) (sort (remdups (map year B)))"
    by (simp only: sR kL)
  also have "\<dots> = sort (remdups (map year M))"
    by (rule sorted_distinct_filter_subset) (auto simp: M_def)
  also have "M = filter (\<lambda>r. state r = ''IL'' \<and> agi_stub r = 10) df"
    by (auto simp: M_def B_def intro: filter_cong)
  finally show ?thesis .
qed

text \<open>
  C10: the inner merge of the per-year totals with the per-year sums of the top bracket
  keeps exactly the years in which Illinois has at least one row with \<open>agi_stub = 10\<close>,
  each once and in ascending order. A year with bracket rows but no top-bracket row has
  no row in the output (it is not reported with a zero share): in \<open>two_years\<close>, 2021 has a
  bracket row and is absent.
\<close>

theorem fig2_years_with_top_bracket:
  "map t_year (fig2 df) =
     sort (remdups (map year (filter (\<lambda>r. state r = ''IL'' \<and> agi_stub r = 10) df)))
   \<and> (y \<in> set (map t_year (fig2 df))
        \<longleftrightarrow> (\<exists>r \<in> set df. state r = ''IL'' \<and> agi_stub r = 10 \<and> year r = y))"
  unfolding fig2_years by auto

theorem fig2_years_with_top_bracket_witness:
  "map year (filter (\<lambda>r. state r = ''IL'' \<and> agi_stub r \<noteq> 0) two_years) = [2021, 2022, 2022]
   \<and> map year (filter (\<lambda>r. state r = ''IL'' \<and> agi_stub r = 10) two_years) = [2022]
   \<and> map t_year (fig2 two_years) = [2022]"
  using fig2_years_with_top_bracket [of two_years 2021]
  by (simp add: two_years_def bracket_a_def blank_def)

section \<open>Filters that match no row\<close>














section \<open>Negative bottom-50% amounts\<close>





section \<open>The loader\<close>

text \<open>
  C7: when the file is missing, the loader does not let the exception out: it shows the
  error box and returns \<open>None\<close>, which it returns in no other case (a malformed or empty
  file leaves the loader as the exception \<^verbatim>\<open>read_csv\<close> raised); \<open>main\<close> then returns at
  once, so that nothing but the error box is shown and no chart is drawn.
\<close>

theorem missing_file_halts_main:
  "load_data parse (Inl FileNotFoundError) = ([StError], Inr None)
   \<and> main parse typed (Inl FileNotFoundError) selected_source = ([StError], None)
   \<and> filter is_chart (fst (main parse typed (Inl FileNotFoundError) selected_source)) = []
   \<and> (snd (load_data parse read_csv) = Inr None \<longleftrightarrow> read_csv = Inl FileNotFoundError)
   \<and> load_data parse (Inl ParserError) = ([], Inl ParserError)
   \<and> load_data parse (Inl EmptyDataError) = ([], Inl EmptyDataError)
   \<and> main parse typed (Inl ParserError) selected_source = ([], Some ParserError)"
  by (auto simp: load_data_def main_def split: sum.splits exn.splits)








end
